theory Spec2Isabelle
  imports Complex_Main
begin

section \<open>Icon scaling and the scaled drawing canvas of bpmn-visualization\<close>

text \<open>
  A shallow embedding of \<^verbatim>\<open>computeScaledIconSize\<close>, of the class \<^verbatim>\<open>BpmnCanvas\<close> and of the
  class \<^verbatim>\<open>ShapeUtil\<close>.

  A JavaScript \<^verbatim>\<open>number\<close> is modelled as a \<^typ>\<open>real\<close>: arithmetic is exact, so rounding to
  IEEE-754 doubles and the values Infinity and NaN are not part of the model. Division by
  zero, which gives Infinity or NaN in JavaScript, gives 0 in HOL; a statement below whose
  truth depends on the value of a quotient takes its divisor to be non-zero.
\<close>

subsection \<open>Data\<close>

text \<open>
  Modelled from the spec: the interfaces \<^verbatim>\<open>Size\<close>, \<^verbatim>\<open>ShapeConfiguration\<close>,
  \<^verbatim>\<open>IconStyleConfiguration\<close> and \<^verbatim>\<open>IconConfiguration\<close> are declared in
  \<^verbatim>\<open>render-types\<close>, which is not among the sources; the records below have the fields that
  the code reads. The fields \<^verbatim>\<open>x\<close>, \<^verbatim>\<open>y\<close>, \<^verbatim>\<open>w\<close>, \<^verbatim>\<open>h\<close> of a shape are named \<open>shapeX\<close>,
  \<open>shapeY\<close>, \<open>shapeW\<close>, \<open>shapeH\<close> here, so that the single letters stay free as variables.
\<close>

record Size =
  width :: real
  height :: real

record ShapeConfiguration =
  shapeX :: real
  shapeY :: real
  shapeW :: real
  shapeH :: real

record IconStyleConfiguration =
  isFilled :: bool
  strokeColor :: string
  fillColor :: string
  strokeWidth :: real

text \<open>
  Modelled from the spec: the margins of \<^verbatim>\<open>StyleDefault\<close> (module \<^verbatim>\<open>StyleUtils\<close>, not among
  the sources) are the default values of the placement operations; they are taken as a
  parameter.
\<close>

record StyleDefault =
  SHAPE_ACTIVITY_TOP_MARGIN :: real
  SHAPE_ACTIVITY_LEFT_MARGIN :: real
  SHAPE_ACTIVITY_BOTTOM_MARGIN :: real
  SHAPE_ACTIVITY_FROM_CENTER_MARGIN :: real

text \<open>
  The underlying \<^verbatim>\<open>mxAbstractCanvas2D\<close> is an external drawing surface. It is modelled by the
  sequence of calls it has received, oldest first.
\<close>

datatype mxCall =
    MxArcTo real real real real real real real
  | MxBegin
  | MxClose
  | MxCurveTo real real real real real real
  | MxFill
  | MxFillAndStroke
  | MxStroke
  | MxSetStrokeColor string
  | MxSetFillColor string
  | MxSetStrokeWidth real
  | MxSetLineJoin string
  | MxLineTo real real
  | MxMoveTo real real
  | MxRect real real real real
  | MxRoundrect real real real real real real
  | MxEllipse real real real real
  | MxRotate real bool bool real real

text \<open>
  The public methods of \<^verbatim>\<open>BpmnCanvas\<close>, as values: a client of the class, and the callback
  \<^verbatim>\<open>setIconOrigin\<close> of an icon configuration, can only act on a canvas through a sequence of
  these calls. An optional argument that is left out is \<open>None\<close>.
\<close>

datatype canvasCall =
    SetIconOriginToShapeTopLeftProportionally real
  | SetIconOriginToShapeTopLeft "real option" "real option"
  | SetIconOriginForIconCentered
  | SetIconOriginForIconBottomCentered "real option"
  | SetIconOriginForIconOnBottomLeft "real option" "real option"
  | TranslateIconOrigin real real
  | ArcTo real real real real real real real
  | Begin
  | Close
  | CurveTo real real real real real real
  | Fill
  | FillAndStroke
  | Stroke
  | SetStrokeColor string
  | SetRoundLineJoin
  | LineTo real real
  | MoveTo real real
  | Rect real real real real
  | Roundrect real real real real real real
  | Ellipse real real real real
  | Rotate real bool bool real real

record IconConfiguration =
  originalSize :: Size
  style :: IconStyleConfiguration
  ratioFromShape :: "real option"
  setIconOrigin :: "canvasCall list"

text \<open>
  The fields of a \<^verbatim>\<open>BpmnCanvas\<close>. The field \<^verbatim>\<open>c\<close> is named \<open>mxCanvas\<close>, after the constructor
  argument it is set from.
\<close>

record BpmnCanvas =
  mxCanvas :: "mxCall list"
  iconOriginalSize :: Size
  scaleX :: real
  scaleY :: real
  iconPaintingOriginX :: real
  iconPaintingOriginY :: real
  shapeConfiguration :: ShapeConfiguration

subsection \<open>computeScaledIconSize\<close>

definition computeScaledIconSize ::
  "Size \<Rightarrow> IconStyleConfiguration \<Rightarrow> ShapeConfiguration \<Rightarrow> real \<Rightarrow> Size" where
  "computeScaledIconSize initialIconSize iconStyleConfiguration shapeCfg ratio =
     (let (iconWidthProportionalToShape, iconHeightProportionalToShape) =
            (if height initialIconSize < width initialIconSize
                \<or> (height initialIconSize = width initialIconSize \<and> shapeW shapeCfg \<le> shapeH shapeCfg)
             then (shapeW shapeCfg, (shapeW shapeCfg * height initialIconSize) / width initialIconSize)
             else ((shapeH shapeCfg * width initialIconSize) / height initialIconSize, shapeH shapeCfg));
          inset = (if strokeWidth iconStyleConfiguration \<noteq> 0
                   then (strokeWidth iconStyleConfiguration - 1) * 2 else 0);
          paintIconWidth = iconWidthProportionalToShape * ratio - inset;
          paintIconHeight = iconHeightProportionalToShape * ratio - inset
      in \<lparr>width = paintIconWidth, height = paintIconHeight\<rparr>)"

text \<open>The local variables of \<^verbatim>\<open>computeScaledIconSize\<close>, named so that they can be stated on.\<close>

definition iconWidthProportionalToShape :: "Size \<Rightarrow> ShapeConfiguration \<Rightarrow> real" where
  "iconWidthProportionalToShape initialIconSize shapeCfg =
     (if height initialIconSize < width initialIconSize
         \<or> (height initialIconSize = width initialIconSize \<and> shapeW shapeCfg \<le> shapeH shapeCfg)
      then shapeW shapeCfg
      else (shapeH shapeCfg * width initialIconSize) / height initialIconSize)"

definition iconHeightProportionalToShape :: "Size \<Rightarrow> ShapeConfiguration \<Rightarrow> real" where
  "iconHeightProportionalToShape initialIconSize shapeCfg =
     (if height initialIconSize < width initialIconSize
         \<or> (height initialIconSize = width initialIconSize \<and> shapeW shapeCfg \<le> shapeH shapeCfg)
      then (shapeW shapeCfg * height initialIconSize) / width initialIconSize
      else shapeH shapeCfg)"

definition inset :: "IconStyleConfiguration \<Rightarrow> real" where
  "inset iconStyleConfiguration =
     (if strokeWidth iconStyleConfiguration \<noteq> 0
      then (strokeWidth iconStyleConfiguration - 1) * 2 else 0)"

subsection \<open>BpmnCanvas\<close>

definition setIconOriginToShapeTopLeftProportionally :: "real \<Rightarrow> BpmnCanvas \<Rightarrow> BpmnCanvas" where
  "setIconOriginToShapeTopLeftProportionally shapeDimensionProportion this =
     (let shape = shapeConfiguration this
      in this\<lparr>iconPaintingOriginX := shapeX shape + shapeW shape / shapeDimensionProportion,
              iconPaintingOriginY := shapeY shape + shapeH shape / shapeDimensionProportion\<rparr>)"

definition setIconOriginToShapeTopLeft :: "real \<Rightarrow> real \<Rightarrow> BpmnCanvas \<Rightarrow> BpmnCanvas" where
  "setIconOriginToShapeTopLeft topMargin leftMargin this =
     (let shape = shapeConfiguration this
      in this\<lparr>iconPaintingOriginX := shapeX shape + leftMargin,
              iconPaintingOriginY := shapeY shape + topMargin\<rparr>)"

definition setIconOriginForIconCentered :: "BpmnCanvas \<Rightarrow> BpmnCanvas" where
  "setIconOriginForIconCentered this =
     (let shape = shapeConfiguration this
      in this\<lparr>iconPaintingOriginX :=
                shapeX shape + (shapeW shape - width (iconOriginalSize this) * scaleX this) / 2,
              iconPaintingOriginY :=
                shapeY shape + (shapeH shape - height (iconOriginalSize this) * scaleY this) / 2\<rparr>)"

definition setIconOriginForIconBottomCentered :: "real \<Rightarrow> BpmnCanvas \<Rightarrow> BpmnCanvas" where
  "setIconOriginForIconBottomCentered bottomMargin this =
     (let shape = shapeConfiguration this
      in this\<lparr>iconPaintingOriginX :=
                shapeX shape + (shapeW shape - width (iconOriginalSize this) * scaleX this) / 2,
              iconPaintingOriginY :=
                shapeY shape + (shapeH shape - height (iconOriginalSize this) * scaleY this - bottomMargin)\<rparr>)"

definition setIconOriginForIconOnBottomLeft :: "real \<Rightarrow> real \<Rightarrow> BpmnCanvas \<Rightarrow> BpmnCanvas" where
  "setIconOriginForIconOnBottomLeft bottomMargin fromCenterMargin this =
     (let shape = shapeConfiguration this
      in this\<lparr>iconPaintingOriginX :=
                shapeX shape + (shapeW shape - width (iconOriginalSize this) * scaleX this) / 3
                  - fromCenterMargin,
              iconPaintingOriginY :=
                shapeY shape + (shapeH shape - height (iconOriginalSize this) * scaleY this - bottomMargin)\<rparr>)"

definition translateIconOrigin :: "real \<Rightarrow> real \<Rightarrow> BpmnCanvas \<Rightarrow> BpmnCanvas" where
  "translateIconOrigin dx dy this =
     this\<lparr>iconPaintingOriginX := iconPaintingOriginX this + scaleX this * dx,
          iconPaintingOriginY := iconPaintingOriginY this + scaleY this * dy\<rparr>"

definition computeScaleFromOriginX :: "BpmnCanvas \<Rightarrow> real \<Rightarrow> real" where
  "computeScaleFromOriginX this x = iconPaintingOriginX this + x * scaleX this"

definition computeScaleFromOriginY :: "BpmnCanvas \<Rightarrow> real \<Rightarrow> real" where
  "computeScaleFromOriginY this y = iconPaintingOriginY this + y * scaleY this"

text \<open>A call on the underlying canvas appends to the calls it has received.\<close>

definition emit :: "mxCall \<Rightarrow> BpmnCanvas \<Rightarrow> BpmnCanvas" where
  "emit call this = this\<lparr>mxCanvas := mxCanvas this @ [call]\<rparr>"

definition updateCanvasStyle :: "IconStyleConfiguration \<Rightarrow> BpmnCanvas \<Rightarrow> BpmnCanvas" where
  "updateCanvasStyle st this =
     emit (MxSetStrokeWidth (strokeWidth st))
       (if isFilled st then emit (MxSetFillColor (strokeColor st)) this
        else emit (MxSetFillColor (fillColor st)) this)"

definition arcTo ::
  "real \<Rightarrow> real \<Rightarrow> real \<Rightarrow> real \<Rightarrow> real \<Rightarrow> real \<Rightarrow> real \<Rightarrow> BpmnCanvas \<Rightarrow> BpmnCanvas" where
  "arcTo rx ry angle largeArcFlag sweepFlag x y this =
     emit (MxArcTo (rx * scaleX this) (ry * scaleY this) angle largeArcFlag sweepFlag
             (computeScaleFromOriginX this x) (computeScaleFromOriginY this y)) this"

definition curveTo ::
  "real \<Rightarrow> real \<Rightarrow> real \<Rightarrow> real \<Rightarrow> real \<Rightarrow> real \<Rightarrow> BpmnCanvas \<Rightarrow> BpmnCanvas" where
  "curveTo x1 y1 x2 y2 x3 y3 this =
     emit (MxCurveTo (computeScaleFromOriginX this x1) (computeScaleFromOriginY this y1)
             (computeScaleFromOriginX this x2) (computeScaleFromOriginY this y2)
             (computeScaleFromOriginX this x3) (computeScaleFromOriginY this y3)) this"

definition lineTo :: "real \<Rightarrow> real \<Rightarrow> BpmnCanvas \<Rightarrow> BpmnCanvas" where
  "lineTo x y this =
     emit (MxLineTo (computeScaleFromOriginX this x) (computeScaleFromOriginY this y)) this"

definition moveTo :: "real \<Rightarrow> real \<Rightarrow> BpmnCanvas \<Rightarrow> BpmnCanvas" where
  "moveTo x y this =
     emit (MxMoveTo (computeScaleFromOriginX this x) (computeScaleFromOriginY this y)) this"

definition rect :: "real \<Rightarrow> real \<Rightarrow> real \<Rightarrow> real \<Rightarrow> BpmnCanvas \<Rightarrow> BpmnCanvas" where
  "rect x y w h this =
     emit (MxRect (computeScaleFromOriginX this x) (computeScaleFromOriginY this y)
             (w * scaleX this) (h * scaleY this)) this"

definition roundrect ::
  "real \<Rightarrow> real \<Rightarrow> real \<Rightarrow> real \<Rightarrow> real \<Rightarrow> real \<Rightarrow> BpmnCanvas \<Rightarrow> BpmnCanvas" where
  "roundrect x y w h dx dy this =
     emit (MxRoundrect (computeScaleFromOriginX this x) (computeScaleFromOriginY this y)
             (w * scaleX this) (h * scaleY this) dx dy) this"

definition ellipse :: "real \<Rightarrow> real \<Rightarrow> real \<Rightarrow> real \<Rightarrow> BpmnCanvas \<Rightarrow> BpmnCanvas" where
  "ellipse x y w h this =
     emit (MxEllipse (computeScaleFromOriginX this x) (computeScaleFromOriginY this y)
             (w * scaleX this) (h * scaleY this)) this"

text \<open>The method \<^verbatim>\<open>rotate\<close>; the name \<open>rotate\<close> is a list function of HOL.\<close>

definition rotateCanvas :: "real \<Rightarrow> bool \<Rightarrow> bool \<Rightarrow> real \<Rightarrow> real \<Rightarrow> BpmnCanvas \<Rightarrow> BpmnCanvas" where
  "rotateCanvas theta flipH flipV cx cy this =
     emit (MxRotate theta flipH flipV (iconPaintingOriginX this + cx) (iconPaintingOriginY this + cy))
       this"

text \<open>
  One call of a public method. The methods without coordinates (\<^verbatim>\<open>begin\<close>, \<^verbatim>\<open>close\<close>,
  \<^verbatim>\<open>fill\<close>, \<^verbatim>\<open>fillAndStroke\<close>, \<^verbatim>\<open>stroke\<close>, \<^verbatim>\<open>setStrokeColor\<close>, \<^verbatim>\<open>setRoundLineJoin\<close>) forward
  to the underlying canvas and are written in place. A margin that is left out takes its
  default from the style defaults.
\<close>

fun call :: "StyleDefault \<Rightarrow> canvasCall \<Rightarrow> BpmnCanvas \<Rightarrow> BpmnCanvas" where
  "call sd (SetIconOriginToShapeTopLeftProportionally p) this =
     setIconOriginToShapeTopLeftProportionally p this"
| "call sd (SetIconOriginToShapeTopLeft topMargin leftMargin) this =
     setIconOriginToShapeTopLeft
       (case topMargin of None \<Rightarrow> SHAPE_ACTIVITY_TOP_MARGIN sd | Some m \<Rightarrow> m)
       (case leftMargin of None \<Rightarrow> SHAPE_ACTIVITY_LEFT_MARGIN sd | Some m \<Rightarrow> m) this"
| "call sd SetIconOriginForIconCentered this = setIconOriginForIconCentered this"
| "call sd (SetIconOriginForIconBottomCentered bottomMargin) this =
     setIconOriginForIconBottomCentered
       (case bottomMargin of None \<Rightarrow> SHAPE_ACTIVITY_BOTTOM_MARGIN sd | Some m \<Rightarrow> m) this"
| "call sd (SetIconOriginForIconOnBottomLeft bottomMargin fromCenterMargin) this =
     setIconOriginForIconOnBottomLeft
       (case bottomMargin of None \<Rightarrow> SHAPE_ACTIVITY_BOTTOM_MARGIN sd | Some m \<Rightarrow> m)
       (case fromCenterMargin of None \<Rightarrow> SHAPE_ACTIVITY_FROM_CENTER_MARGIN sd | Some m \<Rightarrow> m) this"
| "call sd (TranslateIconOrigin dx dy) this = translateIconOrigin dx dy this"
| "call sd (ArcTo rx ry angle largeArcFlag sweepFlag x y) this =
     arcTo rx ry angle largeArcFlag sweepFlag x y this"
| "call sd Begin this = emit MxBegin this"
| "call sd Close this = emit MxClose this"
| "call sd (CurveTo x1 y1 x2 y2 x3 y3) this = curveTo x1 y1 x2 y2 x3 y3 this"
| "call sd Fill this = emit MxFill this"
| "call sd FillAndStroke this = emit MxFillAndStroke this"
| "call sd Stroke this = emit MxStroke this"
| "call sd (SetStrokeColor color) this = emit (MxSetStrokeColor color) this"
| "call sd SetRoundLineJoin this = emit (MxSetLineJoin ''round'') this"
| "call sd (LineTo x y) this = lineTo x y this"
| "call sd (MoveTo x y) this = moveTo x y this"
| "call sd (Rect x y w h) this = rect x y w h this"
| "call sd (Roundrect x y w h dx dy) this = roundrect x y w h dx dy this"
| "call sd (Ellipse x y w h) this = ellipse x y w h this"
| "call sd (Rotate theta flipH flipV cx cy) this = rotateCanvas theta flipH flipV cx cy this"

fun calls :: "StyleDefault \<Rightarrow> canvasCall list \<Rightarrow> BpmnCanvas \<Rightarrow> BpmnCanvas" where
  "calls sd [] this = this"
| "calls sd (k # ks) this = calls sd ks (call sd k this)"

text \<open>
  The constructor. A ratio that is left out or is 0 is falsy, and the scale factors are 1.
\<close>

definition newBpmnCanvas ::
  "StyleDefault \<Rightarrow> mxCall list \<Rightarrow> ShapeConfiguration \<Rightarrow> IconConfiguration \<Rightarrow> BpmnCanvas" where
  "newBpmnCanvas sd mxc shapeCfg iconConfiguration =
     (let this = \<lparr>mxCanvas = mxc, iconOriginalSize = originalSize iconConfiguration,
                  scaleX = 1, scaleY = 1, iconPaintingOriginX = 0, iconPaintingOriginY = 0,
                  shapeConfiguration = shapeCfg\<rparr>;
          this = (case ratioFromShape iconConfiguration of
                    None \<Rightarrow> this
                  | Some ratio \<Rightarrow>
                      if ratio \<noteq> 0 then
                        (let scaledIconSize =
                               computeScaledIconSize (iconOriginalSize this) (style iconConfiguration)
                                 (shapeConfiguration this) ratio
                         in this\<lparr>scaleX := width scaledIconSize / width (iconOriginalSize this),
                                 scaleY := height scaledIconSize / height (iconOriginalSize this)\<rparr>)
                      else this);
          this = updateCanvasStyle (style iconConfiguration) this
      in calls sd (setIconOrigin iconConfiguration) this)"

subsection \<open>ShapeUtil\<close>

text \<open>
  A JavaScript string is a sequence of UTF-16 code units; a code unit is modelled as a
  natural number. \<open>js\<close> gives the code units of a string literal.
\<close>

type_synonym jsString = "nat list"

definition js :: "string \<Rightarrow> jsString" where
  "js s = map of_char s"

text \<open>
  \<^verbatim>\<open>String.prototype.endsWith\<close> with one argument: the search string is compared with the
  last code units of the string, and a search string that is longer does not match.
\<close>

definition endsWith :: "jsString \<Rightarrow> jsString \<Rightarrow> bool" where
  "endsWith s searchString =
     (length searchString \<le> length s
      \<and> drop (length s - length searchString) s = searchString)"

text \<open>
  \<^verbatim>\<open>String.prototype.toLowerCase\<close> follows the case mappings of Unicode, and these include one
  that depends on the context: the capital sigma U+03A3 becomes the final sigma U+03C2 when
  a cased letter comes before it (case-ignorable characters aside) and none comes after it,
  and the small sigma U+03C3 otherwise. The model covers the block Basic Latin (U+0000 to
  U+007F) and the three sigmas. Code units of other blocks are outside the model, which
  leaves them as they are; no statement below is about them.
\<close>

definition isCased :: "nat \<Rightarrow> bool" where
  "isCased u =
     ((65 \<le> u \<and> u \<le> 90) \<or> (97 \<le> u \<and> u \<le> 122) \<or> u = 931 \<or> u = 962 \<or> u = 963)"

definition isCaseIgnorable :: "nat \<Rightarrow> bool" where
  "isCaseIgnorable u = (u = 39 \<or> u = 46 \<or> u = 58 \<or> u = 94 \<or> u = 96)"

fun casedNext :: "jsString \<Rightarrow> bool" where
  "casedNext [] = False"
| "casedNext (u # us) = (if isCaseIgnorable u then casedNext us else isCased u)"

text \<open>\<open>pre\<close> holds the code units before the sigma, the nearest first; \<open>post\<close> those after it.\<close>

definition isFinalSigma :: "jsString \<Rightarrow> jsString \<Rightarrow> bool" where
  "isFinalSigma pre post = (casedNext pre \<and> \<not> casedNext post)"

definition lowerCodeUnit :: "nat \<Rightarrow> nat" where
  "lowerCodeUnit u = (if 65 \<le> u \<and> u \<le> 90 then u + 32 else u)"

fun toLowerCaseFrom :: "jsString \<Rightarrow> jsString \<Rightarrow> jsString" where
  "toLowerCaseFrom pre [] = []"
| "toLowerCaseFrom pre (u # post) =
     (if u = 931 then (if isFinalSigma pre post then 962 else 963) else lowerCodeUnit u)
       # toLowerCaseFrom (u # pre) post"

definition toLowerCase :: "jsString \<Rightarrow> jsString" where
  "toLowerCase s = toLowerCaseFrom [] s"

definition isAscii :: "jsString \<Rightarrow> bool" where
  "isAscii s = list_all (\<lambda>u. u < 128) s"

text \<open>
  The enumeration \<^verbatim>\<open>ShapeBpmnElementKind\<close> is not among the sources:
  \<^verbatim>\<open>Object.values(ShapeBpmnElementKind)\<close>, the list of its values, is the parameter
  \<open>kindValues\<close> of \<open>filterKind\<close> and of the static members that are computed from it.
\<close>

definition filterKind :: "jsString list \<Rightarrow> jsString \<Rightarrow> bool \<Rightarrow> jsString list" where
  "filterKind kindValues suffix ignoreCase =
     filter (\<lambda>kind. if ignoreCase
                     then endsWith kind suffix \<or> endsWith (toLowerCase kind) (toLowerCase suffix)
                     else endsWith kind suffix) kindValues"

definition EVENT_KINDS :: "jsString list \<Rightarrow> jsString list" where
  "EVENT_KINDS kindValues = filterKind kindValues (js ''Event'') False"

definition TASK_KINDS :: "jsString list \<Rightarrow> jsString list" where
  "TASK_KINDS kindValues = filterKind kindValues (js ''Task'') True"

definition GATEWAY_KINDS :: "jsString list \<Rightarrow> jsString list" where
  "GATEWAY_KINDS kindValues = filterKind kindValues (js ''Gateway'') False"

definition isEvent :: "jsString list \<Rightarrow> jsString \<Rightarrow> bool" where
  "isEvent kindValues kind = (kind \<in> set (EVENT_KINDS kindValues))"

definition topLevelBpmnEventKinds :: "jsString list \<Rightarrow> jsString list" where
  "topLevelBpmnEventKinds kindValues = EVENT_KINDS kindValues"

definition taskKinds :: "jsString list \<Rightarrow> jsString list" where
  "taskKinds kindValues = TASK_KINDS kindValues"

definition gatewayKinds :: "jsString list \<Rightarrow> jsString list" where
  "gatewayKinds kindValues = GATEWAY_KINDS kindValues"

text \<open>
  For comparison with \<open>filterKind\<close>: the filter that keeps the kinds whose lower-case form
  ends with the lower-case form of the suffix, and has no case-sensitive test.
\<close>

definition lowerCaseSuffixMatch :: "jsString list \<Rightarrow> jsString \<Rightarrow> jsString list" where
  "lowerCaseSuffixMatch kindValues suffix =
     filter (\<lambda>kind. endsWith (toLowerCase kind) (toLowerCase suffix)) kindValues"

subsection \<open>Properties of computeScaledIconSize\<close>

lemma computeScaledIconSize_locals:
  "computeScaledIconSize i st s r =
     \<lparr>width = iconWidthProportionalToShape i s * r - inset st,
      height = iconHeightProportionalToShape i s * r - inset st\<rparr>"
  by (simp add: computeScaledIconSize_def iconWidthProportionalToShape_def
      iconHeightProportionalToShape_def inset_def Let_def)

lemma scale_factors_equal_without_inset:
  assumes "0 < width i" and "0 < height i" and "inset st = 0"
  shows "width (computeScaledIconSize i st s r) / width i
         = height (computeScaledIconSize i st s r) / height i"
  using assms
  by (auto simp add: computeScaledIconSize_locals iconWidthProportionalToShape_def
      iconHeightProportionalToShape_def field_simps)

text \<open>
  Claim C1. The scale factors that the constructor derives from \<open>computeScaledIconSize\<close> are
  to be equal on both axes for every icon style. The function subtracts the same inset from
  both axes, against its own comment (``The proportions of the icon are left untouched''):
  an icon of 16 by 8 in a shape of 32 by 32, with ratio 1/2 and stroke width 2, is fitted to
  14 by 6, so the scale factors are 7/8 and 3/4.
\<close>

theorem C1_aspect_ratio_failing_input:
  "computeScaledIconSize \<lparr>width = 16, height = 8\<rparr>
       \<lparr>isFilled = False, strokeColor = ''black'', fillColor = ''white'', strokeWidth = 2\<rparr>
       \<lparr>shapeX = 0, shapeY = 0, shapeW = 32, shapeH = 32\<rparr> (1 / 2)
     = \<lparr>width = 14, height = 6\<rparr>
   \<and> scaleX (newBpmnCanvas sd mxc \<lparr>shapeX = 0, shapeY = 0, shapeW = 32, shapeH = 32\<rparr>
        \<lparr>originalSize = \<lparr>width = 16, height = 8\<rparr>,
         style = \<lparr>isFilled = False, strokeColor = ''black'', fillColor = ''white'',
                   strokeWidth = 2\<rparr>,
         ratioFromShape = Some (1 / 2), setIconOrigin = [SetIconOriginForIconCentered]\<rparr>) = 7 / 8
   \<and> scaleY (newBpmnCanvas sd mxc \<lparr>shapeX = 0, shapeY = 0, shapeW = 32, shapeH = 32\<rparr>
        \<lparr>originalSize = \<lparr>width = 16, height = 8\<rparr>,
         style = \<lparr>isFilled = False, strokeColor = ''black'', fillColor = ''white'',
                   strokeWidth = 2\<rparr>,
         ratioFromShape = Some (1 / 2), setIconOrigin = [SetIconOriginForIconCentered]\<rparr>) = 3 / 4"
  by (simp add: newBpmnCanvas_def computeScaledIconSize_def updateCanvasStyle_def emit_def
      setIconOriginForIconCentered_def Let_def)




text \<open>
  Claim C4. For a square icon the shape decides the branch: a shape that is not wider than
  tall fits the icon to the width of the shape, a shape that is wider than tall fits it to
  the height.
\<close>

theorem C4_square_icon_tie_break:
  assumes "width i = height i"
  shows "(shapeW s \<le> shapeH s \<longrightarrow>
            iconWidthProportionalToShape i s = shapeW s
            \<and> iconHeightProportionalToShape i s = shapeW s * height i / width i
            \<and> computeScaledIconSize i st s r =
                \<lparr>width = shapeW s * r - inset st,
                 height = shapeW s * height i / width i * r - inset st\<rparr>)
         \<and> (shapeH s < shapeW s \<longrightarrow>
            iconHeightProportionalToShape i s = shapeH s
            \<and> iconWidthProportionalToShape i s = shapeH s * width i / height i
            \<and> computeScaledIconSize i st s r =
                \<lparr>width = shapeH s * width i / height i * r - inset st,
                 height = shapeH s * r - inset st\<rparr>)"
  using assms
  by (simp add: computeScaledIconSize_locals iconWidthProportionalToShape_def
      iconHeightProportionalToShape_def)

theorem C4_square_icon_tie_break_witness:
  "width \<lparr>width = 8, height = 8\<rparr> = height \<lparr>width = 8, height = 8\<rparr>
   \<and> shapeW \<lparr>shapeX = 0, shapeY = 0, shapeW = 4, shapeH = 6\<rparr>
       \<le> shapeH \<lparr>shapeX = 0, shapeY = 0, shapeW = 4, shapeH = 6\<rparr>
   \<and> iconWidthProportionalToShape \<lparr>width = 8, height = 8\<rparr>
       \<lparr>shapeX = 0, shapeY = 0, shapeW = 4, shapeH = 6\<rparr> = 4
   \<and> shapeH \<lparr>shapeX = 0, shapeY = 0, shapeW = 6, shapeH = 4\<rparr>
       < shapeW \<lparr>shapeX = 0, shapeY = 0, shapeW = 6, shapeH = 4\<rparr>
   \<and> iconHeightProportionalToShape \<lparr>width = 8, height = 8\<rparr>
       \<lparr>shapeX = 0, shapeY = 0, shapeW = 6, shapeH = 4\<rparr> = 4"
proof -
  have sq: "width \<lparr>width = 8, height = 8\<rparr> = height \<lparr>width = 8, height = 8\<rparr>"
    by simp
  show ?thesis
    using C4_square_icon_tie_break [OF sq, of "\<lparr>shapeX = 0, shapeY = 0, shapeW = 4, shapeH = 6\<rparr>"]
      C4_square_icon_tie_break [OF sq, of "\<lparr>shapeX = 0, shapeY = 0, shapeW = 6, shapeH = 4\<rparr>"]
    by simp
qed

text \<open>
  Claim C5. The inset is (strokeWidth - 1) * 2 for a stroke width other than 0, and 0 for
  the stroke width 0; it is subtracted from each axis after the proportional size has been
  multiplied by the ratio. Stroke width 1 subtracts nothing, stroke width 3 subtracts 4
  from both axes.
\<close>

theorem C5_inset:
  "computeScaledIconSize i st s r =
     \<lparr>width = iconWidthProportionalToShape i s * r
                - (if strokeWidth st = 0 then 0 else (strokeWidth st - 1) * 2),
      height = iconHeightProportionalToShape i s * r
                - (if strokeWidth st = 0 then 0 else (strokeWidth st - 1) * 2)\<rparr>
   \<and> computeScaledIconSize i (st\<lparr>strokeWidth := 1\<rparr>) s r =
       \<lparr>width = iconWidthProportionalToShape i s * r,
        height = iconHeightProportionalToShape i s * r\<rparr>
   \<and> computeScaledIconSize i (st\<lparr>strokeWidth := 3\<rparr>) s r =
       \<lparr>width = iconWidthProportionalToShape i s * r - 4,
        height = iconHeightProportionalToShape i s * r - 4\<rparr>"
  by (simp add: computeScaledIconSize_locals inset_def)

text \<open>
  Claim C9. The fitted size does not depend on the position of the shape: two shapes of the
  same width and height give the same size, whatever their x and y.
\<close>

theorem C9_position_independent:
  assumes "shapeW s1 = shapeW s2" and "shapeH s1 = shapeH s2"
  shows "computeScaledIconSize i st s1 r = computeScaledIconSize i st s2 r"
  using assms by (simp add: computeScaledIconSize_def)

theorem C9_position_independent_witness:
  "shapeW \<lparr>shapeX = 0, shapeY = 0, shapeW = 32, shapeH = 24\<rparr>
     = shapeW \<lparr>shapeX = 10, shapeY = 70, shapeW = 32, shapeH = 24\<rparr>
   \<and> shapeH \<lparr>shapeX = 0, shapeY = 0, shapeW = 32, shapeH = 24\<rparr>
     = shapeH \<lparr>shapeX = 10, shapeY = 70, shapeW = 32, shapeH = 24\<rparr>
   \<and> computeScaledIconSize \<lparr>width = 16, height = 8\<rparr>
       \<lparr>isFilled = False, strokeColor = ''black'', fillColor = ''white'', strokeWidth = 3\<rparr>
       \<lparr>shapeX = 0, shapeY = 0, shapeW = 32, shapeH = 24\<rparr> (1 / 2)
     = computeScaledIconSize \<lparr>width = 16, height = 8\<rparr>
       \<lparr>isFilled = False, strokeColor = ''black'', fillColor = ''white'', strokeWidth = 3\<rparr>
       \<lparr>shapeX = 10, shapeY = 70, shapeW = 32, shapeH = 24\<rparr> (1 / 2)"
proof -
  have w: "shapeW \<lparr>shapeX = 0, shapeY = 0, shapeW = 32, shapeH = 24\<rparr>
           = shapeW \<lparr>shapeX = 10, shapeY = 70, shapeW = 32, shapeH = 24\<rparr>"
    by simp
  have h: "shapeH \<lparr>shapeX = 0, shapeY = 0, shapeW = 32, shapeH = 24\<rparr>
           = shapeH \<lparr>shapeX = 10, shapeY = 70, shapeW = 32, shapeH = 24\<rparr>"
    by simp
  from C9_position_independent [OF w h] w h show ?thesis by blast
qed

subsection \<open>Properties of BpmnCanvas\<close>

lemma call_keeps_scale:
  "scaleX (call sd k this) = scaleX this \<and> scaleY (call sd k this) = scaleY this
   \<and> iconOriginalSize (call sd k this) = iconOriginalSize this
   \<and> shapeConfiguration (call sd k this) = shapeConfiguration this"
  by (cases k)
    (simp_all add: setIconOriginToShapeTopLeftProportionally_def setIconOriginToShapeTopLeft_def
      setIconOriginForIconCentered_def setIconOriginForIconBottomCentered_def
      setIconOriginForIconOnBottomLeft_def translateIconOrigin_def arcTo_def curveTo_def
      lineTo_def moveTo_def rect_def roundrect_def ellipse_def rotateCanvas_def emit_def Let_def)

lemma calls_keeps_scale:
  "scaleX (calls sd ks this) = scaleX this \<and> scaleY (calls sd ks this) = scaleY this
   \<and> iconOriginalSize (calls sd ks this) = iconOriginalSize this
   \<and> shapeConfiguration (calls sd ks this) = shapeConfiguration this"
  by (induction ks arbitrary: this) (simp_all add: call_keeps_scale)

lemma updateCanvasStyle_keeps_scale:
  "scaleX (updateCanvasStyle st this) = scaleX this
   \<and> scaleY (updateCanvasStyle st this) = scaleY this"
  by (simp add: updateCanvasStyle_def emit_def)

lemma newBpmnCanvas_scaleX:
  "scaleX (newBpmnCanvas sd mxc shapeCfg iconCfg)
     = (case ratioFromShape iconCfg of
          None \<Rightarrow> 1
        | Some ratio \<Rightarrow>
            if ratio = 0 then 1
            else width (computeScaledIconSize (originalSize iconCfg) (style iconCfg) shapeCfg ratio)
                   / width (originalSize iconCfg))"
  by (simp add: newBpmnCanvas_def calls_keeps_scale updateCanvasStyle_keeps_scale Let_def
      split: option.split)

lemma newBpmnCanvas_scaleY:
  "scaleY (newBpmnCanvas sd mxc shapeCfg iconCfg)
     = (case ratioFromShape iconCfg of
          None \<Rightarrow> 1
        | Some ratio \<Rightarrow>
            if ratio = 0 then 1
            else height (computeScaledIconSize (originalSize iconCfg) (style iconCfg) shapeCfg ratio)
                   / height (originalSize iconCfg))"
  by (simp add: newBpmnCanvas_def calls_keeps_scale updateCanvasStyle_keeps_scale Let_def
      split: option.split)

text \<open>
  Claim C6. \<^verbatim>\<open>rotate\<close> forwards one call to the underlying canvas, whose center is the icon
  origin plus (cx, cy); the scale factors of the canvas have no part in it.
\<close>

theorem C6_rotate_center_not_scaled:
  "rotateCanvas theta flipH flipV cx cy this =
     this\<lparr>mxCanvas := mxCanvas this
            @ [MxRotate theta flipH flipV (iconPaintingOriginX this + cx)
                 (iconPaintingOriginY this + cy)]\<rparr>
   \<and> call sd (Rotate theta flipH flipV cx cy) this = rotateCanvas theta flipH flipV cx cy this
   \<and> mxCanvas (rotateCanvas theta flipH flipV cx cy (this\<lparr>scaleX := a, scaleY := b\<rparr>))
       = mxCanvas (rotateCanvas theta flipH flipV cx cy this)"
  by (simp add: rotateCanvas_def emit_def)

text \<open>
  Claim C7, as stated: a primitive with coordinates, called at (x, y) after the translation
  by (dx, dy), sends to the underlying canvas what it sends at (x + dx, y + dy) before the
  translation. \<^verbatim>\<open>rotate\<close> takes the coordinates of a center and does not scale them: on a
  canvas of scale 2 with its origin at (0, 0), the center (0, 0) after the translation by
  (1, 1) is sent as (2, 2), and the center (1, 1) before the translation as (1, 1).
\<close>

theorem C7_rotate_after_translation_counterexample:
  "mxCanvas (rotateCanvas 0 False False 0 0
       (translateIconOrigin 1 1
          \<lparr>mxCanvas = [], iconOriginalSize = \<lparr>width = 16, height = 8\<rparr>, scaleX = 2, scaleY = 2,
           iconPaintingOriginX = 0, iconPaintingOriginY = 0,
           shapeConfiguration = \<lparr>shapeX = 0, shapeY = 0, shapeW = 32, shapeH = 32\<rparr>\<rparr>))
     = [MxRotate 0 False False 2 2]
   \<and> mxCanvas (rotateCanvas 0 False False (0 + 1) (0 + 1)
          \<lparr>mxCanvas = [], iconOriginalSize = \<lparr>width = 16, height = 8\<rparr>, scaleX = 2, scaleY = 2,
           iconPaintingOriginX = 0, iconPaintingOriginY = 0,
           shapeConfiguration = \<lparr>shapeX = 0, shapeY = 0, shapeW = 32, shapeH = 32\<rparr>\<rparr>)
     = [MxRotate 0 False False 1 1]
   \<and> mxCanvas (rotateCanvas 0 False False 0 0
       (translateIconOrigin 1 1
          \<lparr>mxCanvas = [], iconOriginalSize = \<lparr>width = 16, height = 8\<rparr>, scaleX = 2, scaleY = 2,
           iconPaintingOriginX = 0, iconPaintingOriginY = 0,
           shapeConfiguration = \<lparr>shapeX = 0, shapeY = 0, shapeW = 32, shapeH = 32\<rparr>\<rparr>))
     \<noteq> mxCanvas (rotateCanvas 0 False False (0 + 1) (0 + 1)
          \<lparr>mxCanvas = [], iconOriginalSize = \<lparr>width = 16, height = 8\<rparr>, scaleX = 2, scaleY = 2,
           iconPaintingOriginX = 0, iconPaintingOriginY = 0,
           shapeConfiguration = \<lparr>shapeX = 0, shapeY = 0, shapeW = 32, shapeH = 32\<rparr>\<rparr>)"
  by (simp add: rotateCanvas_def translateIconOrigin_def emit_def)

text \<open>
  Claim C7, amended. \<^verbatim>\<open>translateIconOrigin\<close> adds (scaleX * dx, scaleY * dy) to the icon
  origin and touches nothing else. After the translation, a primitive whose coordinates are
  scaled sends the coordinate x as (originX + scaleX * dx) + x * scaleX and the coordinate y
  as (originY + scaleY * dy) + y * scaleY, and \<^verbatim>\<open>rotate\<close> sends the center
  ((originX + scaleX * dx) + cx, (originY + scaleY * dy) + cy). These are the expressions
  that the code evaluates, in its order of operations; nothing is said of the coordinates
  sent for (x + dx, y + dy) before the translation.
\<close>

theorem C7_translateIconOrigin:
  "translateIconOrigin dx dy this =
     this\<lparr>iconPaintingOriginX := iconPaintingOriginX this + scaleX this * dx,
          iconPaintingOriginY := iconPaintingOriginY this + scaleY this * dy\<rparr>
   \<and> computeScaleFromOriginX (translateIconOrigin dx dy this) x
       = (iconPaintingOriginX this + scaleX this * dx) + x * scaleX this
   \<and> computeScaleFromOriginY (translateIconOrigin dx dy this) y
       = (iconPaintingOriginY this + scaleY this * dy) + y * scaleY this
   \<and> mxCanvas (moveTo x y (translateIconOrigin dx dy this))
       = mxCanvas this
         @ [MxMoveTo ((iconPaintingOriginX this + scaleX this * dx) + x * scaleX this)
              ((iconPaintingOriginY this + scaleY this * dy) + y * scaleY this)]
   \<and> mxCanvas (lineTo x y (translateIconOrigin dx dy this))
       = mxCanvas this
         @ [MxLineTo ((iconPaintingOriginX this + scaleX this * dx) + x * scaleX this)
              ((iconPaintingOriginY this + scaleY this * dy) + y * scaleY this)]
   \<and> mxCanvas (curveTo x1 y1 x2 y2 x3 y3 (translateIconOrigin dx dy this))
       = mxCanvas this
         @ [MxCurveTo ((iconPaintingOriginX this + scaleX this * dx) + x1 * scaleX this)
              ((iconPaintingOriginY this + scaleY this * dy) + y1 * scaleY this)
              ((iconPaintingOriginX this + scaleX this * dx) + x2 * scaleX this)
              ((iconPaintingOriginY this + scaleY this * dy) + y2 * scaleY this)
              ((iconPaintingOriginX this + scaleX this * dx) + x3 * scaleX this)
              ((iconPaintingOriginY this + scaleY this * dy) + y3 * scaleY this)]
   \<and> mxCanvas (arcTo rx ry angle largeArcFlag sweepFlag x y (translateIconOrigin dx dy this))
       = mxCanvas this
         @ [MxArcTo (rx * scaleX this) (ry * scaleY this) angle largeArcFlag sweepFlag
              ((iconPaintingOriginX this + scaleX this * dx) + x * scaleX this)
              ((iconPaintingOriginY this + scaleY this * dy) + y * scaleY this)]
   \<and> mxCanvas (rect x y w h (translateIconOrigin dx dy this))
       = mxCanvas this
         @ [MxRect ((iconPaintingOriginX this + scaleX this * dx) + x * scaleX this)
              ((iconPaintingOriginY this + scaleY this * dy) + y * scaleY this)
              (w * scaleX this) (h * scaleY this)]
   \<and> mxCanvas (roundrect x y w h rdx rdy (translateIconOrigin dx dy this))
       = mxCanvas this
         @ [MxRoundrect ((iconPaintingOriginX this + scaleX this * dx) + x * scaleX this)
              ((iconPaintingOriginY this + scaleY this * dy) + y * scaleY this)
              (w * scaleX this) (h * scaleY this) rdx rdy]
   \<and> mxCanvas (ellipse x y w h (translateIconOrigin dx dy this))
       = mxCanvas this
         @ [MxEllipse ((iconPaintingOriginX this + scaleX this * dx) + x * scaleX this)
              ((iconPaintingOriginY this + scaleY this * dy) + y * scaleY this)
              (w * scaleX this) (h * scaleY this)]
   \<and> mxCanvas (rotateCanvas theta flipH flipV cx cy (translateIconOrigin dx dy this))
       = mxCanvas this
         @ [MxRotate theta flipH flipV ((iconPaintingOriginX this + scaleX this * dx) + cx)
              ((iconPaintingOriginY this + scaleY this * dy) + cy)]"
  by (simp add: translateIconOrigin_def computeScaleFromOriginX_def computeScaleFromOriginY_def
      moveTo_def lineTo_def curveTo_def arcTo_def rect_def roundrect_def ellipse_def
      rotateCanvas_def emit_def)

text \<open>
  Claim C8. The constructor leaves the scale factors as it computed them before the
  placement callback ran, and no sequence of method calls changes them afterwards: such a
  sequence changes the icon origin and the calls received by the underlying canvas, and no
  other field.
\<close>

theorem C8_scale_factors_fixed:
  "scaleX (calls sd ks this) = scaleX this
   \<and> scaleY (calls sd ks this) = scaleY this
   \<and> calls sd ks this =
       this\<lparr>mxCanvas := mxCanvas (calls sd ks this),
            iconPaintingOriginX := iconPaintingOriginX (calls sd ks this),
            iconPaintingOriginY := iconPaintingOriginY (calls sd ks this)\<rparr>
   \<and> scaleX (calls sd ks (newBpmnCanvas sd mxc shapeCfg iconCfg))
       = (case ratioFromShape iconCfg of
            None \<Rightarrow> 1
          | Some ratio \<Rightarrow>
              if ratio = 0 then 1
              else width (computeScaledIconSize (originalSize iconCfg) (style iconCfg) shapeCfg ratio)
                     / width (originalSize iconCfg))
   \<and> scaleY (calls sd ks (newBpmnCanvas sd mxc shapeCfg iconCfg))
       = (case ratioFromShape iconCfg of
            None \<Rightarrow> 1
          | Some ratio \<Rightarrow>
              if ratio = 0 then 1
              else height (computeScaledIconSize (originalSize iconCfg) (style iconCfg) shapeCfg ratio)
                     / height (originalSize iconCfg))"
proof -
  have frame: "calls sd ks this =
       this\<lparr>mxCanvas := mxCanvas (calls sd ks this),
            iconPaintingOriginX := iconPaintingOriginX (calls sd ks this),
            iconPaintingOriginY := iconPaintingOriginY (calls sd ks this)\<rparr>"
    by (rule BpmnCanvas.equality) (simp_all add: calls_keeps_scale)
  from frame show ?thesis
    by (simp add: calls_keeps_scale newBpmnCanvas_scaleX newBpmnCanvas_scaleY)
qed

subsection \<open>Properties of ShapeUtil\<close>

lemma endsWith_append: "endsWith s t \<longleftrightarrow> (\<exists>p. s = p @ t)"
proof
  assume "endsWith s t"
  then have "s = take (length s - length t) s @ t"
    by (metis append_take_drop_id endsWith_def)
  then show "\<exists>p. s = p @ t" ..
next
  assume "\<exists>p. s = p @ t"
  then show "endsWith s t"
    by (auto simp add: endsWith_def)
qed

lemma toLowerCaseFrom_no_sigma:
  "931 \<notin> set s \<Longrightarrow> toLowerCaseFrom pre s = map lowerCodeUnit s"
  by (induction s arbitrary: pre) auto

lemma isAscii_no_sigma: "isAscii s \<Longrightarrow> 931 \<notin> set s"
  by (auto simp add: isAscii_def list_all_iff)

lemma toLowerCase_ascii: "isAscii s \<Longrightarrow> toLowerCase s = map lowerCodeUnit s"
  by (simp add: toLowerCase_def toLowerCaseFrom_no_sigma isAscii_no_sigma)

lemma endsWith_toLowerCase_ascii:
  assumes "isAscii kind" and "isAscii suffix" and "endsWith kind suffix"
  shows "endsWith (toLowerCase kind) (toLowerCase suffix)"
proof -
  from assms(3) obtain p where "kind = p @ suffix"
    by (auto simp add: endsWith_append)
  then have "map lowerCodeUnit kind = map lowerCodeUnit p @ map lowerCodeUnit suffix"
    by simp
  with assms(1,2) show ?thesis
    by (auto simp add: toLowerCase_ascii endsWith_append)
qed

text \<open>
  Claim C2, as stated: with the kinds START_EVENT, END_EVENT, USER_TASK and
  EXCLUSIVE_GATEWAY, \<^verbatim>\<open>isEvent\<close> is to hold of START_EVENT. The suffix Event is compared
  case-sensitively, and START_EVENT does not end with it.
\<close>

theorem C2_isEvent_upper_case_counterexample:
  "\<not> isEvent [js ''START_EVENT'', js ''END_EVENT'', js ''USER_TASK'', js ''EXCLUSIVE_GATEWAY'']
       (js ''START_EVENT'')"
  by (simp add: isEvent_def EVENT_KINDS_def filterKind_def endsWith_def js_def)

text \<open>
  Claim C2, amended. With the kinds START_EVENT, END_EVENT, USER_TASK and EXCLUSIVE_GATEWAY,
  \<^verbatim>\<open>isEvent\<close> holds of no kind, and \<^verbatim>\<open>taskKinds\<close> is the list of USER_TASK alone, the suffix
  Task being compared whatever the case. With the kinds startEvent, endEvent, userTask and
  exclusiveGateway, \<^verbatim>\<open>isEvent\<close> holds of startEvent and endEvent and of no other string, and
  \<^verbatim>\<open>taskKinds\<close> is the list of userTask alone.
\<close>

theorem C2_kind_classification:
  "\<not> isEvent [js ''START_EVENT'', js ''END_EVENT'', js ''USER_TASK'', js ''EXCLUSIVE_GATEWAY''] kind
   \<and> taskKinds [js ''START_EVENT'', js ''END_EVENT'', js ''USER_TASK'', js ''EXCLUSIVE_GATEWAY'']
       = [js ''USER_TASK'']
   \<and> isEvent [js ''startEvent'', js ''endEvent'', js ''userTask'', js ''exclusiveGateway''] kind
       = (kind = js ''startEvent'' \<or> kind = js ''endEvent'')
   \<and> taskKinds [js ''startEvent'', js ''endEvent'', js ''userTask'', js ''exclusiveGateway'']
       = [js ''userTask'']"
proof -
  have upper: "EVENT_KINDS
      [js ''START_EVENT'', js ''END_EVENT'', js ''USER_TASK'', js ''EXCLUSIVE_GATEWAY''] = []"
    by (simp add: EVENT_KINDS_def filterKind_def endsWith_def js_def)
  have camel: "EVENT_KINDS
      [js ''startEvent'', js ''endEvent'', js ''userTask'', js ''exclusiveGateway'']
      = [js ''startEvent'', js ''endEvent'']"
    by (simp add: EVENT_KINDS_def filterKind_def endsWith_def js_def)
  have upper_task: "taskKinds
      [js ''START_EVENT'', js ''END_EVENT'', js ''USER_TASK'', js ''EXCLUSIVE_GATEWAY'']
      = [js ''USER_TASK'']"
    by (simp add: taskKinds_def TASK_KINDS_def filterKind_def endsWith_def toLowerCase_def
        lowerCodeUnit_def js_def)
  have camel_task: "taskKinds
      [js ''startEvent'', js ''endEvent'', js ''userTask'', js ''exclusiveGateway'']
      = [js ''userTask'']"
    by (simp add: taskKinds_def TASK_KINDS_def filterKind_def endsWith_def toLowerCase_def
        lowerCodeUnit_def js_def)
  have no_event: "\<not> isEvent
      [js ''START_EVENT'', js ''END_EVENT'', js ''USER_TASK'', js ''EXCLUSIVE_GATEWAY''] kind"
    by (simp add: isEvent_def upper)
  have events: "isEvent
      [js ''startEvent'', js ''endEvent'', js ''userTask'', js ''exclusiveGateway''] kind
      = (kind = js ''startEvent'' \<or> kind = js ''endEvent'')"
    by (auto simp add: isEvent_def camel)
  from no_event upper_task events camel_task show ?thesis
    by blast
qed

text \<open>
  Claim C10, as stated: for every kind and suffix, the test of \<open>filterKind\<close> with
  \<^verbatim>\<open>ignoreCase\<close> is the lower-case test alone. The kind made of the letter A and a capital
  sigma ends with the suffix made of a capital sigma, so the filter keeps it; in lower case
  the kind ends with a final sigma (U+03C2) and the suffix is a small sigma (U+03C3), so the
  lower-case test alone rejects it.
\<close>

theorem C10_final_sigma_counterexample:
  "endsWith [65, 931] [931]
   \<and> toLowerCase [65, 931] = [97, 962]
   \<and> toLowerCase [931] = [963]
   \<and> \<not> endsWith (toLowerCase [65, 931]) (toLowerCase [931])
   \<and> filterKind [[65, 931]] [931] True = [[65, 931]]
   \<and> lowerCaseSuffixMatch [[65, 931]] [931] = []"
  by (simp add: endsWith_def toLowerCase_def isFinalSigma_def isCased_def isCaseIgnorable_def
      lowerCodeUnit_def filterKind_def lowerCaseSuffixMatch_def)

text \<open>
  Claim C10, amended: for every kind and suffix made of ASCII characters, as the values of
  the enumeration and the suffixes given to \<open>filterKind\<close> are, the case-sensitive test is
  redundant, and the filter with \<^verbatim>\<open>ignoreCase\<close> is the lower-case suffix match.
\<close>

theorem C10_lower_case_suffix_ascii:
  assumes "isAscii suffix" and "isAscii kind" and "list_all isAscii kindValues"
  shows "(endsWith kind suffix \<or> endsWith (toLowerCase kind) (toLowerCase suffix))
           = endsWith (toLowerCase kind) (toLowerCase suffix)
         \<and> filterKind kindValues suffix True = lowerCaseSuffixMatch kindValues suffix"
proof -
  have one: "(endsWith k suffix \<or> endsWith (toLowerCase k) (toLowerCase suffix))
               = endsWith (toLowerCase k) (toLowerCase suffix)" if "isAscii k" for k
    using that assms(1) endsWith_toLowerCase_ascii by blast
  have "filter (\<lambda>k. endsWith k suffix \<or> endsWith (toLowerCase k) (toLowerCase suffix)) kindValues
          = filter (\<lambda>k. endsWith (toLowerCase k) (toLowerCase suffix)) kindValues"
    using assms(3) one by (intro filter_cong) (auto simp add: list_all_iff)
  then have "filterKind kindValues suffix True = lowerCaseSuffixMatch kindValues suffix"
    by (simp add: filterKind_def lowerCaseSuffixMatch_def)
  with one [OF assms(2)] show ?thesis
    by simp
qed

theorem C10_lower_case_suffix_ascii_witness:
  "isAscii (js ''Task'') \<and> isAscii (js ''USER_TASK'')
   \<and> list_all isAscii [js ''START_EVENT'', js ''USER_TASK'']
   \<and> filterKind [js ''START_EVENT'', js ''USER_TASK''] (js ''Task'') True
       = lowerCaseSuffixMatch [js ''START_EVENT'', js ''USER_TASK''] (js ''Task'')
   \<and> lowerCaseSuffixMatch [js ''START_EVENT'', js ''USER_TASK''] (js ''Task'')
       = [js ''USER_TASK'']"
proof -
  have a: "isAscii (js ''Task'')"
    by (simp add: isAscii_def js_def)
  have b: "isAscii (js ''USER_TASK'')"
    by (simp add: isAscii_def js_def)
  have c: "list_all isAscii [js ''START_EVENT'', js ''USER_TASK'']"
    by (simp add: isAscii_def js_def)
  have d: "lowerCaseSuffixMatch [js ''START_EVENT'', js ''USER_TASK''] (js ''Task'')
             = [js ''USER_TASK'']"
    by (simp add: lowerCaseSuffixMatch_def endsWith_def toLowerCase_def lowerCodeUnit_def js_def)
  from C10_lower_case_suffix_ascii [OF a b c] a b c d show ?thesis
    by blast
qed

end
